theory Spec2Isabelle
  imports Complex_Main "HOL-Library.Word"
begin

unbundle bit_operations_syntax

section \<open>The WebGPU triangle demo: a shallow embedding of \<open>main.ts\<close>\<close>

text \<open>
  The program is one asynchronous procedure, \<open>init\<close>, with two helpers
  (\<open>fetchShaderFile\<close>, \<open>createGPUBuffer\<close>; \<open>loadModel\<close> has an empty body and nothing
  calls it). It computes nothing of its own: all it
  does is call the browser (WebGPU, DOM, fetch, console) in a fixed order and stop at
  the first exception. The embedding therefore records every call as an event of a
  trace, and every \<open>throw\<close>, rejected promise and dereference of \<open>null\<close> as an error
  value that ends the run.
\<close>

subsection \<open>Exceptions and browser-side values\<close>

datatype js_error =
    Error string          \<comment> \<open>\<open>Error(msg)\<close> and \<open>new Error(msg)\<close>\<close>
  | TypeError             \<comment> \<open>raised by the runtime: property access on \<open>null\<close>, mixed BigInt and Number\<close>
  | RangeError            \<comment> \<open>raised by the runtime: a view or a copy that does not fit\<close>
  | OperationError        \<comment> \<open>raised by WebGPU\<close>

text \<open>The element types of the typed arrays of ECMAScript.\<close>

datatype elem_type =
    Float32 | Uint32 | Uint16 | Uint8
  | Int8 | Int16 | Int32 | Uint8Clamped | Float64 | BigInt64 | BigUint64

text \<open>
  A typed array holds its elements as raw bit patterns of the element width; a float is
  its IEEE~754 encoding. None of the code below does arithmetic on an element.
\<close>

datatype typed_array =
    Float32Array "32 word list"
  | Uint32Array "32 word list"
  | Uint16Array "16 word list"
  | Uint8Array "8 word list"
  | Int8Array "8 word list"
  | Int16Array "16 word list"
  | Int32Array "32 word list"
  | Uint8ClampedArray "8 word list"
  | Float64Array "64 word list"
  | BigInt64Array "64 word list"
  | BigUint64Array "64 word list"

fun elem_type_of :: "typed_array \<Rightarrow> elem_type" where
  "elem_type_of (Float32Array _) = Float32"
| "elem_type_of (Uint32Array _) = Uint32"
| "elem_type_of (Uint16Array _) = Uint16"
| "elem_type_of (Uint8Array _) = Uint8"
| "elem_type_of (Int8Array _) = Int8"
| "elem_type_of (Int16Array _) = Int16"
| "elem_type_of (Int32Array _) = Int32"
| "elem_type_of (Uint8ClampedArray _) = Uint8Clamped"
| "elem_type_of (Float64Array _) = Float64"
| "elem_type_of (BigInt64Array _) = BigInt64"
| "elem_type_of (BigUint64Array _) = BigUint64"

fun BYTES_PER_ELEMENT :: "elem_type \<Rightarrow> nat" where
  "BYTES_PER_ELEMENT Float32 = 4"
| "BYTES_PER_ELEMENT Uint32 = 4"
| "BYTES_PER_ELEMENT Uint16 = 2"
| "BYTES_PER_ELEMENT Uint8 = 1"
| "BYTES_PER_ELEMENT Int8 = 1"
| "BYTES_PER_ELEMENT Int16 = 2"
| "BYTES_PER_ELEMENT Int32 = 4"
| "BYTES_PER_ELEMENT Uint8Clamped = 1"
| "BYTES_PER_ELEMENT Float64 = 8"
| "BYTES_PER_ELEMENT BigInt64 = 8"
| "BYTES_PER_ELEMENT BigUint64 = 8"

text \<open>\<open>true\<close> for the two element types whose values are BigInts, not Numbers.\<close>

fun is_bigint :: "elem_type \<Rightarrow> bool" where
  "is_bigint BigInt64 = True"
| "is_bigint BigUint64 = True"
| "is_bigint _ = False"

text \<open>The elements of a typed array, each as the number its bits spell.\<close>

fun raw_elems :: "typed_array \<Rightarrow> nat list" where
  "raw_elems (Float32Array xs) = map unat xs"
| "raw_elems (Uint32Array xs) = map unat xs"
| "raw_elems (Uint16Array xs) = map unat xs"
| "raw_elems (Uint8Array xs) = map unat xs"
| "raw_elems (Int8Array xs) = map unat xs"
| "raw_elems (Int16Array xs) = map unat xs"
| "raw_elems (Int32Array xs) = map unat xs"
| "raw_elems (Uint8ClampedArray xs) = map unat xs"
| "raw_elems (Float64Array xs) = map unat xs"
| "raw_elems (BigInt64Array xs) = map unat xs"
| "raw_elems (BigUint64Array xs) = map unat xs"

text \<open>\<open>a.length\<close> and \<open>a.byteLength\<close>.\<close>

definition array_length :: "typed_array \<Rightarrow> nat" where
  "array_length a = length (raw_elems a)"

definition byteLength :: "typed_array \<Rightarrow> nat" where
  "byteLength a = array_length a * BYTES_PER_ELEMENT (elem_type_of a)"

text \<open>
  An \<open>ArrayBuffer\<close> is a list of bytes. An element of \<open>n\<close> bytes lies in it least
  significant byte first (the byte order of a typed array on the platforms that run
  WebGPU); \<open>view_elems\<close> reads a buffer back as the elements of a view.
\<close>

type_synonym array_buffer = "8 word list"

fun nat_le_bytes :: "nat \<Rightarrow> nat \<Rightarrow> array_buffer" where
  "nat_le_bytes 0 v = []"
| "nat_le_bytes (Suc n) v = of_nat (v mod 256) # nat_le_bytes n (v div 256)"


definition encode :: "elem_type \<Rightarrow> nat list \<Rightarrow> array_buffer" where
  "encode t vs = concat (map (nat_le_bytes (BYTES_PER_ELEMENT t)) vs)"



subsection \<open>Buffers and descriptors of WebGPU\<close>

text \<open>Bit flags of WebGPU (\<open>GPUBufferUsage\<close>, \<open>GPUTextureUsage\<close>).\<close>

type_synonym flags = "32 word"

definition GPUBufferUsage_COPY_DST :: flags where "GPUBufferUsage_COPY_DST = 0x0008"
definition GPUBufferUsage_VERTEX :: flags where "GPUBufferUsage_VERTEX = 0x0020"
definition GPUTextureUsage_RENDER_ATTACHMENT :: flags where
  "GPUTextureUsage_RENDER_ATTACHMENT = 0x10"

record GPUBufferDescriptor =
  size_desc :: nat
  usage_desc :: flags
  mappedAtCreation :: bool

text \<open>
  A GPU buffer: its size in bytes, whether it is mapped, the bytes of its mapped range
  (what a view created over \<open>getMappedRange()\<close> reads and writes) and the bytes on the
  device, which \<open>unmap\<close> replaces by those of the mapped range.
\<close>

record GPUBuffer =
  size_buf :: nat
  usage_buf :: flags
  mapped :: bool
  mapped_range :: array_buffer
  contents :: array_buffer

text \<open>The descriptors \<open>init\<close> builds. Enumerations of WebGPU are the strings the code
  writes; a handle whose inside the program never looks at is a number, and a field that
  only holds such a handle (the \<open>device\<close> of the canvas configuration, the \<open>view\<close> of a
  colour attachment) is left out of its record.\<close>

record GPUVertexAttribute =
  shaderLocation :: nat
  offset :: nat
  format :: string

record GPUVertexBufferLayout =
  attributes :: "GPUVertexAttribute list"
  arrayStride :: nat
  stepMode :: string

type_synonym GPUShaderModule = nat

record GPUVertexState =
  module_v :: GPUShaderModule
  entryPoint_v :: string
  buffers :: "GPUVertexBufferLayout list"

record GPUColorTargetState =
  format_t :: string

record GPUFragmentState =
  module_f :: GPUShaderModule
  entryPoint_f :: string
  targets :: "GPUColorTargetState list"

record GPUPrimitiveState =
  topology :: string

type_synonym GPUBindGroupLayout = nat

record GPUPipelineLayoutDescriptor =
  bindGroupLayouts :: "GPUBindGroupLayout list"

text \<open>The \<open>layout\<close> of a pipeline descriptor: the string \<open>"auto"\<close>, or a pipeline layout
  object, which is what \<open>createPipelineLayout\<close> made of its descriptor.\<close>

datatype GPUPipelineLayout = PipelineLayout GPUPipelineLayoutDescriptor

datatype layout_choice = auto | Layout GPUPipelineLayout

record GPURenderPipelineDescriptor =
  vertex :: GPUVertexState
  fragment :: GPUFragmentState
  primitive :: GPUPrimitiveState
  layout :: layout_choice

datatype GPURenderPipeline = RenderPipeline GPURenderPipelineDescriptor

record GPUCanvasConfiguration =
  format_c :: string
  usage_c :: "flags option"
  alphaMode :: string

record GPUColor =
  r_c :: real
  g_c :: real
  b_c :: real
  a_c :: real

record GPURenderPassColorAttachment =
  clearValue :: GPUColor
  loadOp :: string
  storeOp :: string

record GPURenderPassDescriptor =
  colorAttachments :: "GPURenderPassColorAttachment list"

datatype GPUCommandBuffer = CommandBuffer

subsection \<open>Runs: a result and the trace of calls made\<close>

text \<open>The arguments of \<open>console.error\<close> and \<open>console.warn\<close>: strings and caught errors.\<close>

datatype log_arg = Str string | Err js_error

text \<open>One event for each call that reaches outside the program, with its arguments.\<close>

datatype event =
    ConsoleError "log_arg list"
  | ConsoleWarn "log_arg list"
  | RequestAdapter
  | RequestDevice
  | Fetch string
  | CreateShaderModule "string option"
  | GetContext string
  | Configure GPUCanvasConfiguration
  | CreateBuffer GPUBufferDescriptor
  | GetMappedRange
  | Unmap
  | WriteBuffer GPUBuffer nat typed_array nat nat
  | CreatePipelineLayout GPUPipelineLayoutDescriptor
  | CreateRenderPipeline GPURenderPipelineDescriptor
  | CreateCommandEncoder
  | GetCurrentTexture
  | CreateView
  | BeginRenderPass GPURenderPassDescriptor
  | SetViewport real real real real real real
  | SetPipeline GPURenderPipeline
  | SetVertexBuffer nat GPUBuffer
  | Draw nat
  | EndPass
  | Finish
  | Submit "GPUCommandBuffer list"

text \<open>
  A run is the value returned, or the exception that ended it (\<open>Inl\<close>), with the calls
  made up to there. \<open>bnd\<close> is the semicolon: the second statement runs only when the
  first returned, and its calls follow those of the first.
\<close>

type_synonym 'a run = "(js_error + 'a) \<times> event list"

definition ret :: "'a \<Rightarrow> 'a run" where
  "ret x = (Inr x, [])"

definition throw :: "js_error \<Rightarrow> 'a run" where
  "throw e = (Inl e, [])"

definition call :: "event \<Rightarrow> unit run" where
  "call ev = (Inr (), [ev])"

definition outcome :: "js_error + 'a \<Rightarrow> 'a run" where
  "outcome x = (x, [])"

definition bnd :: "'a run \<Rightarrow> ('a \<Rightarrow> 'b run) \<Rightarrow> 'b run" where
  "bnd m f =
     (case m of
        (Inl e, t) \<Rightarrow> (Inl e, t)
      | (Inr x, t) \<Rightarrow> (case f x of (y, t') \<Rightarrow> (y, t @ t')))"

text \<open>\<open>try { m } catch (error) { h error }\<close>.\<close>

definition try_catch :: "'a run \<Rightarrow> (js_error \<Rightarrow> 'a run) \<Rightarrow> 'a run" where
  "try_catch m h =
     (case m of
        (Inl e, t) \<Rightarrow> (case h e of (y, t') \<Rightarrow> (y, t @ t'))
      | (Inr x, t) \<Rightarrow> (Inr x, t))"

subsection \<open>Buffers, mapped ranges and views\<close>

text \<open>
  What the browser decides about a device: whether \<open>createShaderModule\<close> returns a
  module for a given code or throws, and whether \<open>createBuffer\<close> refuses a descriptor
  (WebGPU refuses, with a \<open>RangeError\<close>, a buffer mapped at creation whose size is not a
  multiple of 4, and any size it cannot allocate).
\<close>

record GPUDevice =
  shader_module_for :: "string option \<Rightarrow> js_error + GPUShaderModule"
  buffer_refusal :: "GPUBufferDescriptor \<Rightarrow> js_error option"

text \<open>\<open>device.createBuffer\<close>. The mapped range of a buffer mapped at creation starts as
  zeros.\<close>

definition createBuffer :: "GPUDevice \<Rightarrow> GPUBufferDescriptor \<Rightarrow> GPUBuffer run" where
  "createBuffer device desc =
     bnd (call (CreateBuffer desc)) (\<lambda>_.
       case buffer_refusal device desc of
         Some e \<Rightarrow> throw e
       | None \<Rightarrow>
           ret \<lparr>size_buf = size_desc desc, usage_buf = usage_desc desc,
                 mapped = mappedAtCreation desc,
                 mapped_range = (if mappedAtCreation desc then replicate (size_desc desc) 0 else []),
                 contents = replicate (size_desc desc) 0\<rparr>)"

definition getMappedRange :: "GPUBuffer \<Rightarrow> array_buffer run" where
  "getMappedRange gpuBuffer =
     bnd (call GetMappedRange) (\<lambda>_.
       if mapped gpuBuffer then ret (mapped_range gpuBuffer) else throw OperationError)"

definition unmap :: "GPUBuffer \<Rightarrow> GPUBuffer run" where
  "unmap gpuBuffer =
     bnd (call Unmap) (\<lambda>_.
       if mapped gpuBuffer
       then ret (gpuBuffer\<lparr>mapped := False, contents := mapped_range gpuBuffer, mapped_range := []\<rparr>)
       else ret gpuBuffer)"

text \<open>
  \<open>new T(arrayBuffer)\<close>: a view of element type \<open>T\<close> over the whole buffer. It throws a
  \<open>RangeError\<close> when the buffer's length is not a multiple of the element size. The view
  shares the buffer: the model keeps the bytes in the view and the caller writes them
  back where they came from.
\<close>

record view =
  view_type :: elem_type
  view_buffer :: array_buffer

definition view_length :: "view \<Rightarrow> nat" where
  "view_length v = length (view_buffer v) div BYTES_PER_ELEMENT (view_type v)"

definition new_view :: "elem_type \<Rightarrow> array_buffer \<Rightarrow> view run" where
  "new_view t buf =
     (if length buf mod BYTES_PER_ELEMENT t \<noteq> 0 then throw RangeError
      else ret \<lparr>view_type = t, view_buffer = buf\<rparr>)"

text \<open>
  \<open>view.set(source)\<close> for a typed array \<open>source\<close>: a \<open>RangeError\<close> when the source has
  more elements than the view, a \<open>TypeError\<close> when one holds BigInts and the other
  Numbers; otherwise element \<open>i\<close> of the source becomes element \<open>i\<close> of the view. Between
  arrays of one element type that is a copy of the bits. Between different element types
  each value is converted; that conversion is floating-point arithmetic, and the model
  takes it as the parameter \<open>cvt\<close> (from the source's element type to the view's, on raw
  bits).
\<close>

type_synonym conversion = "elem_type \<Rightarrow> elem_type \<Rightarrow> nat \<Rightarrow> nat"

definition converted :: "conversion \<Rightarrow> elem_type \<Rightarrow> typed_array \<Rightarrow> nat list" where
  "converted cvt t source =
     (if elem_type_of source = t then raw_elems source
      else map (cvt (elem_type_of source) t) (raw_elems source))"

definition view_set :: "conversion \<Rightarrow> view \<Rightarrow> typed_array \<Rightarrow> view run" where
  "view_set cvt v source =
     (if array_length source > view_length v then throw RangeError
      else if is_bigint (view_type v) \<noteq> is_bigint (elem_type_of source) then throw TypeError
      else let bytes = encode (view_type v) (converted cvt (view_type v) source)
           in ret (v\<lparr>view_buffer := bytes @ drop (length bytes) (view_buffer v)\<rparr>))"

subsection \<open>\<open>createGPUBuffer\<close>\<close>

text \<open>
  The two lines every branch of \<open>createGPUBuffer\<close> repeats with its own element type:
  \<^verbatim>\<open>const writeArrayNormal = new T(gpuBuffer.getMappedRange());
  writeArrayNormal.set(buffer);\<close>
\<close>

definition write_through :: "conversion \<Rightarrow> elem_type \<Rightarrow> GPUBuffer \<Rightarrow> typed_array \<Rightarrow> GPUBuffer run" where
  "write_through cvt t gpuBuffer buffer =
     bnd (getMappedRange gpuBuffer) (\<lambda>range.
     bnd (new_view t range) (\<lambda>writeArrayNormal.
     bnd (view_set cvt writeArrayNormal buffer) (\<lambda>writeArrayNormal.
     ret (gpuBuffer\<lparr>mapped_range := view_buffer writeArrayNormal\<rparr>))))"

definition createGPUBuffer :: "conversion \<Rightarrow> GPUDevice \<Rightarrow> typed_array \<Rightarrow> flags \<Rightarrow> GPUBuffer run" where
  "createGPUBuffer cvt device buffer usage =
     (let bufferDesc = \<lparr>size_desc = byteLength buffer, usage_desc = usage, mappedAtCreation = True\<rparr>
      in bnd (createBuffer device bufferDesc) (\<lambda>gpuBuffer.
         bnd (if elem_type_of buffer = Float32 then write_through cvt Float32 gpuBuffer buffer
              else if elem_type_of buffer = Uint32 then write_through cvt Uint32 gpuBuffer buffer
              else if elem_type_of buffer = Uint16 then write_through cvt Uint16 gpuBuffer buffer
              else if elem_type_of buffer = Uint8 then write_through cvt Uint8 gpuBuffer buffer
              else bnd (write_through cvt Float32 gpuBuffer buffer) (\<lambda>gpuBuffer.
                   bnd (call (ConsoleError [Str ''Unhandled buffer format '', Str ''object''])) (\<lambda>_.
                   ret gpuBuffer))) (\<lambda>gpuBuffer.
         bnd (unmap gpuBuffer) (\<lambda>gpuBuffer.
         ret gpuBuffer))))"

subsection \<open>The browser around the program\<close>

text \<open>
  Everything \<open>init\<close> asks of the browser, and what the browser answers. A promise is
  its outcome: the value it resolves to, or the error it rejects with.
\<close>

record GPUAdapter =
  requestDevice :: "js_error + GPUDevice"

record GPU =
  requestAdapter :: "js_error + GPUAdapter option"
  getPreferredCanvasFormat :: string

datatype GPUCanvasContext = CanvasContext

record HTMLCanvasElement =
  width :: nat
  height :: nat
  getContext_webgpu :: "GPUCanvasContext option"

text \<open>An element of the page: a canvas, or any other element with its \<open>src\<close> attribute.\<close>

datatype element = Canvas HTMLCanvasElement | Other "string option"

record Response =
  ok :: bool
  text_body :: "js_error + string"

record env =
  gpu :: "GPU option"
  querySelector :: "string \<Rightarrow> element option"
  fetch :: "string \<Rightarrow> js_error + Response"
  number_conversion :: conversion

text \<open>An entry of \<open>shadersMap\<close>, the table that \<open>main.ts\<close> imports from
  \<open>./shaders-map\<close>. The table itself is a parameter of the model.\<close>

record shader_entry =
  entry_id :: string
  entry_src :: string

subsection \<open>\<open>fetchShaderFile\<close>\<close>

text \<open>The loop over \<open>shadersMap\<close>: the \<open>src\<close> of the first entry with the id, or
  \<open>undefined\<close>.\<close>

primrec find_src :: "shader_entry list \<Rightarrow> string \<Rightarrow> string option" where
  "find_src [] i = None"
| "find_src (e # es) i = (if entry_id e = i then Some (entry_src e) else find_src es i)"

definition quoted :: "string \<Rightarrow> string" where
  "quoted s = [CHR 0x22] @ s @ [CHR 0x22]"

text \<open>\<open>!src\<close> holds of \<open>undefined\<close> and of the empty string.\<close>

definition fetchShaderFile :: "env \<Rightarrow> shader_entry list \<Rightarrow> string \<Rightarrow> string option run" where
  "fetchShaderFile env shadersMap i =
     (let not_found =
            bnd (call (ConsoleError [Str (''Failed to find shader with '' @ quoted i @ ''!'')])) (\<lambda>_.
            ret None)
      in case find_src shadersMap i of
           None \<Rightarrow> not_found
         | Some src \<Rightarrow>
             if src = [] then not_found
             else
               try_catch
                 (bnd (call (Fetch src)) (\<lambda>_.
                  bnd (outcome (fetch env src)) (\<lambda>response.
                  bnd (if \<not> ok response then throw (Error ''Network response was not ok.'')
                       else ret ()) (\<lambda>_.
                  bnd (outcome (text_body response)) (\<lambda>content.
                  ret (Some content))))))
                 (\<lambda>error.
                  bnd (call (ConsoleError
                         [Str (''Error while fetching shader file '' @ quoted i @ '':''), Err error])) (\<lambda>_.
                  ret None)))"

subsection \<open>\<open>init\<close>\<close>

definition createShaderModule :: "GPUDevice \<Rightarrow> string option \<Rightarrow> GPUShaderModule run" where
  "createShaderModule device code =
     bnd (call (CreateShaderModule code)) (\<lambda>_. outcome (shader_module_for device code))"

definition createPipelineLayout :: "GPUPipelineLayoutDescriptor \<Rightarrow> GPUPipelineLayout run" where
  "createPipelineLayout desc =
     bnd (call (CreatePipelineLayout desc)) (\<lambda>_. ret (PipelineLayout desc))"

definition createRenderPipeline :: "GPURenderPipelineDescriptor \<Rightarrow> GPURenderPipeline run" where
  "createRenderPipeline desc =
     bnd (call (CreateRenderPipeline desc)) (\<lambda>_. ret (RenderPipeline desc))"

text \<open>The six vertices' worth of numbers of the triangle, as the \<open>Float32Array\<close> holds
  them: \<open>0\<close>, \<open>1\<close>, \<open>0.5\<close>, \<open>-0.5\<close>, \<open>0.6\<close> and \<open>-0.6\<close> in IEEE~754 binary32.\<close>

definition vertices :: typed_array where
  "vertices = Float32Array
     [0x00000000, 0x3F19999A, 0x00000000, 0x3F800000,
      0x3F800000, 0x00000000, 0x00000000, 0x3F800000,
      0xBF000000, 0xBF19999A, 0x00000000, 0x3F800000,
      0x00000000, 0x3F800000, 0x00000000, 0x3F800000,
      0x3F000000, 0xBF19999A, 0x00000000, 0x3F800000,
      0x00000000, 0x00000000, 0x3F800000, 0x3F800000]"

definition vertexBufferLayout :: "GPUVertexBufferLayout list" where
  "vertexBufferLayout =
     [\<lparr>attributes =
         [\<lparr>shaderLocation = 0, offset = 0, format = ''float32x4''\<rparr>,
          \<lparr>shaderLocation = 1, offset = 16, format = ''float32x4''\<rparr>],
       arrayStride = 32,
       stepMode = ''vertex''\<rparr>]"

definition clearColor :: GPUColor where
  "clearColor = \<lparr>r_c = 0.0, g_c = 0.5, b_c = 1.0, a_c = 1.0\<rparr>"

text \<open>
  \<open>init\<close> of \<open>main.ts\<close>. The element found is taken for a canvas without a check
  (\<open>as HTMLCanvasElement\<close>): \<open>null\<close> has no \<open>getContext\<close> and neither has an element
  that is not a canvas, so the call is a \<open>TypeError\<close> for both; so is \<open>context.configure\<close>
  when \<open>getContext\<close> returned \<open>null\<close>.
\<close>

definition init :: "env \<Rightarrow> shader_entry list \<Rightarrow> unit run" where
  "init env shadersMap =
     (case gpu env of
        None \<Rightarrow> throw (Error ''WebGPU not supported.'')
      | Some navigator_gpu \<Rightarrow>
     bnd (call RequestAdapter) (\<lambda>_.
     bnd (outcome (requestAdapter navigator_gpu)) (\<lambda>adapter.
     case adapter of
        None \<Rightarrow> throw (Error (''Couldn'' @ [CHR 0x27] @ ''t request WebGPU adapter.''))
      | Some adapter \<Rightarrow>
     bnd (call RequestDevice) (\<lambda>_.
     bnd (outcome (requestDevice adapter)) (\<lambda>device.
     bnd (fetchShaderFile env shadersMap ''demo'') (\<lambda>shader_demo.
     bnd (createShaderModule device shader_demo) (\<lambda>shaderModule_demo.
     let canvas = querySelector env ''#webgpu-canvas'' in
     bnd (if canvas = None then call (ConsoleError [Str ''No canvas found to render to!''])
          else ret ()) (\<lambda>_.
     case canvas of
        None \<Rightarrow> throw TypeError
      | Some (Other _) \<Rightarrow> throw TypeError
      | Some (Canvas canvas) \<Rightarrow>
     bnd (call (GetContext ''webgpu'')) (\<lambda>_.
     case getContext_webgpu canvas of
        None \<Rightarrow> throw TypeError
      | Some context \<Rightarrow>
     bnd (call (Configure \<lparr>format_c = getPreferredCanvasFormat navigator_gpu,
                            usage_c = Some GPUTextureUsage_RENDER_ATTACHMENT,
                            alphaMode = ''premultiplied''\<rparr>)) (\<lambda>_.
     bnd (createGPUBuffer (number_conversion env) device vertices GPUBufferUsage_VERTEX) (\<lambda>vertexBuffer.
     let pipelineLayoutDesc = \<lparr>bindGroupLayouts = []\<rparr> in
     bnd (createPipelineLayout pipelineLayoutDesc) (\<lambda>layout.
     let pipelineDescriptor =
           \<lparr>vertex = \<lparr>module_v = shaderModule_demo, entryPoint_v = ''vertex_main'',
                       buffers = vertexBufferLayout\<rparr>,
            fragment = \<lparr>module_f = shaderModule_demo, entryPoint_f = ''fragment_main'',
                         targets = [\<lparr>format_t = getPreferredCanvasFormat navigator_gpu\<rparr>]\<rparr>,
            primitive = \<lparr>topology = ''triangle-list''\<rparr>,
            layout = Layout layout\<rparr> in
     bnd (createRenderPipeline pipelineDescriptor) (\<lambda>renderPipeline.
     bnd (call CreateCommandEncoder) (\<lambda>_.
     bnd (call GetCurrentTexture) (\<lambda>_.
     bnd (call CreateView) (\<lambda>_.
     let renderPassDesc =
           \<lparr>colorAttachments = [\<lparr>clearValue = clearColor, loadOp = ''clear'', storeOp = ''store''\<rparr>]\<rparr> in
     bnd (call (BeginRenderPass renderPassDesc)) (\<lambda>_.
     bnd (call (SetViewport 0 0 (real (width canvas)) (real (height canvas)) 0 1)) (\<lambda>_.
     bnd (call (SetPipeline renderPipeline)) (\<lambda>_.
     bnd (call (SetVertexBuffer 0 vertexBuffer)) (\<lambda>_.
     bnd (call (Draw 3)) (\<lambda>_.
     bnd (call EndPass) (\<lambda>_.
     bnd (call Finish) (\<lambda>_.
     call (Submit [CommandBuffer]))))))))))))))))))))))))"

subsection \<open>The other variant of \<open>init\<close>\<close>

text \<open>
  The repository holds a second file with an \<open>init\<close> of its own. It finds the shader
  through a \<open>script\<close> element of the page instead of \<open>shadersMap\<close>, fills the vertex
  buffer with \<open>device.queue.writeBuffer\<close> instead of \<open>createGPUBuffer\<close>, sets no viewport,
  and passes \<open>layout: "auto"\<close>. Its functions carry the suffix \<open>_v0\<close> here.
\<close>

text \<open>\<open>element.getAttribute('src')\<close>; a canvas has no such attribute.\<close>

fun getAttribute_src :: "element \<Rightarrow> string option" where
  "getAttribute_src (Canvas _) = None"
| "getAttribute_src (Other s) = s"

text \<open>\<open>fetch(src)\<close> turns its argument into a string: \<open>null\<close> becomes \<open>"null"\<close>.\<close>

fun url_string :: "string option \<Rightarrow> string" where
  "url_string None = ''null''"
| "url_string (Some s) = s"

definition fetchShaderFile_v0 :: "env \<Rightarrow> string \<Rightarrow> string option run" where
  "fetchShaderFile_v0 env i =
     (case querySelector env (''#'' @ i) of
        None \<Rightarrow>
          bnd (call (ConsoleWarn [Str (''Script tag with id '' @ quoted i @ '' not found!'')])) (\<lambda>_.
          ret None)
      | Some scriptElmnt \<Rightarrow>
          let src = url_string (getAttribute_src scriptElmnt) in
          try_catch
            (bnd (call (Fetch src)) (\<lambda>_.
             bnd (outcome (fetch env src)) (\<lambda>response.
             bnd (if \<not> ok response then throw (Error ''Network response was not ok.'')
                  else ret ()) (\<lambda>_.
             bnd (outcome (text_body response)) (\<lambda>content.
             ret (Some content))))))
            (\<lambda>error.
             bnd (call (ConsoleError
                    [Str (''Error while fetching shader file '' @ quoted i @ '':''), Err error])) (\<lambda>_.
             ret None)))"

text \<open>
  \<open>device.queue.writeBuffer(buffer, bufferOffset, data, dataOffset, size)\<close> with a typed
  array as \<open>data\<close>: \<open>size\<close> elements of it, from element \<open>dataOffset\<close> on, replace the
  bytes of the buffer from \<open>bufferOffset\<close> on.
\<close>

definition writeBuffer :: "GPUBuffer \<Rightarrow> nat \<Rightarrow> typed_array \<Rightarrow> nat \<Rightarrow> nat \<Rightarrow> GPUBuffer run" where
  "writeBuffer buffer bufferOffset source dataOffset n =
     bnd (call (WriteBuffer buffer bufferOffset source dataOffset n)) (\<lambda>_.
       let bytes = encode (elem_type_of source) (take n (drop dataOffset (raw_elems source)))
       in ret (buffer\<lparr>contents := take bufferOffset (contents buffer) @ bytes
                                    @ drop (bufferOffset + length bytes) (contents buffer)\<rparr>))"

definition init_v0 :: "env \<Rightarrow> unit run" where
  "init_v0 env =
     (case gpu env of
        None \<Rightarrow> throw (Error ''WebGPU not supported.'')
      | Some navigator_gpu \<Rightarrow>
     bnd (call RequestAdapter) (\<lambda>_.
     bnd (outcome (requestAdapter navigator_gpu)) (\<lambda>adapter.
     case adapter of
        None \<Rightarrow> throw (Error (''Couldn'' @ [CHR 0x27] @ ''t request WebGPU adapter.''))
      | Some adapter \<Rightarrow>
     bnd (call RequestDevice) (\<lambda>_.
     bnd (outcome (requestDevice adapter)) (\<lambda>device.
     bnd (fetchShaderFile_v0 env ''shader-demo'') (\<lambda>shader_demo.
     bnd (createShaderModule device shader_demo) (\<lambda>shaderModule_demo.
     let canvas = querySelector env ''#webgpu-canvas'' in
     bnd (if canvas = None then call (ConsoleError [Str ''No canvas found to render to!''])
          else ret ()) (\<lambda>_.
     case canvas of
        None \<Rightarrow> throw TypeError
      | Some (Other _) \<Rightarrow> throw TypeError
      | Some (Canvas canvas) \<Rightarrow>
     bnd (call (GetContext ''webgpu'')) (\<lambda>_.
     case getContext_webgpu canvas of
        None \<Rightarrow> throw TypeError
      | Some context \<Rightarrow>
     bnd (call (Configure \<lparr>format_c = getPreferredCanvasFormat navigator_gpu,
                            usage_c = None,
                            alphaMode = ''premultiplied''\<rparr>)) (\<lambda>_.
     bnd (createBuffer device \<lparr>size_desc = byteLength vertices,
                                usage_desc = GPUBufferUsage_VERTEX OR GPUBufferUsage_COPY_DST,
                                mappedAtCreation = False\<rparr>) (\<lambda>vertexBuffer.
     bnd (writeBuffer vertexBuffer 0 vertices 0 (array_length vertices)) (\<lambda>vertexBuffer.
     let pipelineDescriptor =
           \<lparr>vertex = \<lparr>module_v = shaderModule_demo, entryPoint_v = ''vertex_main'',
                       buffers = vertexBufferLayout\<rparr>,
            fragment = \<lparr>module_f = shaderModule_demo, entryPoint_f = ''fragment_main'',
                         targets = [\<lparr>format_t = getPreferredCanvasFormat navigator_gpu\<rparr>]\<rparr>,
            primitive = \<lparr>topology = ''triangle-list''\<rparr>,
            layout = auto\<rparr> in
     bnd (createRenderPipeline pipelineDescriptor) (\<lambda>renderPipeline.
     bnd (call CreateCommandEncoder) (\<lambda>_.
     bnd (call GetCurrentTexture) (\<lambda>_.
     bnd (call CreateView) (\<lambda>_.
     let renderPassDesc =
           \<lparr>colorAttachments = [\<lparr>clearValue = clearColor, loadOp = ''clear'', storeOp = ''store''\<rparr>]\<rparr> in
     bnd (call (BeginRenderPass renderPassDesc)) (\<lambda>_.
     bnd (call (SetPipeline renderPipeline)) (\<lambda>_.
     bnd (call (SetVertexBuffer 0 vertexBuffer)) (\<lambda>_.
     bnd (call (Draw 3)) (\<lambda>_.
     bnd (call EndPass) (\<lambda>_.
     bnd (call Finish) (\<lambda>_.
     call (Submit [CommandBuffer])))))))))))))))))))))))"

subsection \<open>Reading a trace\<close>

text \<open>The draw calls of a trace (their vertex counts), its queue submissions (their
  command buffers) and the descriptors of the render pipelines it creates.\<close>

fun draws :: "event list \<Rightarrow> nat list" where
  "draws [] = []"
| "draws (Draw n # t) = n # draws t"
| "draws (_ # t) = draws t"

fun submits :: "event list \<Rightarrow> GPUCommandBuffer list list" where
  "submits [] = []"
| "submits (Submit cs # t) = cs # submits t"
| "submits (_ # t) = submits t"

fun pipeline_descs :: "event list \<Rightarrow> GPURenderPipelineDescriptor list" where
  "pipeline_descs [] = []"
| "pipeline_descs (CreateRenderPipeline d # t) = d # pipeline_descs t"
| "pipeline_descs (_ # t) = pipeline_descs t"

fun is_ConsoleError :: "event \<Rightarrow> bool" where
  "is_ConsoleError (ConsoleError _) = True"
| "is_ConsoleError _ = False"

subsection \<open>A browser in which the demo runs\<close>

text \<open>
  A device that refuses what WebGPU refuses of the calls above (a module without code, a
  buffer mapped at creation whose size is not a multiple of 4), a page with the canvas,
  a server with the shader file, and a table with the one shader.
\<close>

definition sample_device :: GPUDevice where
  "sample_device =
     \<lparr>shader_module_for = (\<lambda>code. case code of None \<Rightarrow> Inl TypeError | Some _ \<Rightarrow> Inr 1),
      buffer_refusal = (\<lambda>desc. if mappedAtCreation desc \<and> size_desc desc mod 4 \<noteq> 0
                                then Some RangeError else None)\<rparr>"

definition sample_gpu :: GPU where
  "sample_gpu =
     \<lparr>requestAdapter = Inr (Some \<lparr>requestDevice = Inr sample_device\<rparr>),
      getPreferredCanvasFormat = ''bgra8unorm''\<rparr>"

definition sample_canvas :: HTMLCanvasElement where
  "sample_canvas = \<lparr>width = 640, height = 480, getContext_webgpu = Some CanvasContext\<rparr>"

definition sample_env :: env where
  "sample_env =
     \<lparr>gpu = Some sample_gpu,
      querySelector = (\<lambda>sel.
         if sel = ''#webgpu-canvas'' then Some (Canvas sample_canvas)
         else if sel = ''#shader-demo'' then Some (Other (Some ''shaders/demo.wgsl''))
         else None),
      fetch = (\<lambda>url.
         if url = ''shaders/demo.wgsl''
         then Inr \<lparr>ok = True, text_body = Inr ''// demo.wgsl''\<rparr>
         else Inr \<lparr>ok = False, text_body = Inr ''not found''\<rparr>),
      number_conversion = (\<lambda>_ _ v. v)\<rparr>"

definition sample_shadersMap :: "shader_entry list" where
  "sample_shadersMap = [\<lparr>entry_id = ''demo'', entry_src = ''shaders/demo.wgsl''\<rparr>]"

section \<open>Properties\<close>

subsection \<open>Bytes and elements\<close>

lemma length_nat_le_bytes: "length (nat_le_bytes n v) = n"
  by (induction n arbitrary: v) simp_all

lemma length_encode: "length (encode t vs) = length vs * BYTES_PER_ELEMENT t"
  by (induction vs) (simp_all add: encode_def length_nat_le_bytes)

lemma BYTES_PER_ELEMENT_pos: "0 < BYTES_PER_ELEMENT t"
  by (cases t) simp_all





subsection \<open>Runs\<close>

lemma fst_bnd: "fst (bnd m f) = (case fst m of Inl e \<Rightarrow> Inl e | Inr x \<Rightarrow> fst (f x))"
  by (cases m) (simp add: bnd_def split: sum.split prod.split)

lemma snd_bnd: "snd (bnd m f) = (case fst m of Inl e \<Rightarrow> snd m | Inr x \<Rightarrow> snd m @ snd (f x))"
  by (cases m) (simp add: bnd_def split: sum.split prod.split)

lemma fst_try_catch:
  "fst (try_catch m h) = (case fst m of Inl e \<Rightarrow> fst (h e) | Inr x \<Rightarrow> Inr x)"
  by (cases m) (simp add: try_catch_def split: sum.split prod.split)

lemma snd_try_catch:
  "snd (try_catch m h) = (case fst m of Inl e \<Rightarrow> snd m @ snd (h e) | Inr x \<Rightarrow> snd m)"
  by (cases m) (simp add: try_catch_def split: sum.split prod.split)

lemma fst_ret: "fst (ret x) = Inr x" and snd_ret: "snd (ret x) = []"
  by (simp_all add: ret_def)

lemma fst_throw: "fst (throw e) = Inl e" and snd_throw: "snd (throw e) = []"
  by (simp_all add: throw_def)

lemma fst_call: "fst (call ev) = Inr ()" and snd_call: "snd (call ev) = [ev]"
  by (simp_all add: call_def)

lemma fst_outcome: "fst (outcome x) = x" and snd_outcome: "snd (outcome x) = []"
  by (simp_all add: outcome_def)

lemmas run_simps =
  fst_bnd snd_bnd fst_try_catch snd_try_catch fst_ret snd_ret fst_throw snd_throw
  fst_call snd_call fst_outcome snd_outcome

lemma draws_append: "draws (s @ t) = draws s @ draws t"
  by (induction s rule: draws.induct) simp_all

lemma submits_append: "submits (s @ t) = submits s @ submits t"
  by (induction s rule: submits.induct) simp_all

lemma pipeline_descs_append: "pipeline_descs (s @ t) = pipeline_descs s @ pipeline_descs t"
  by (induction s rule: pipeline_descs.induct) simp_all

subsection \<open>\<open>createGPUBuffer\<close>\<close>

lemma snd_write_through: "snd (write_through cvt t gpuBuffer buffer) = [GetMappedRange]"
  by (simp add: write_through_def getMappedRange_def new_view_def view_set_def Let_def run_simps)

lemma fst_write_through:
  assumes "fst (write_through cvt t gpuBuffer buffer) = Inr gpuBuffer'"
  shows "\<exists>bytes. gpuBuffer' = gpuBuffer\<lparr>mapped_range := bytes\<rparr>"
  using assms
  by (auto simp add: write_through_def getMappedRange_def new_view_def view_set_def Let_def run_simps
      split: if_splits)

text \<open>A source of the view's own element type, written over a mapped range of the
  source's byte length, fills the range with the source's elements.\<close>

lemma write_through_same:
  assumes "mapped gpuBuffer" and "length (mapped_range gpuBuffer) = byteLength buffer"
    and "elem_type_of buffer = t"
  shows "write_through cvt t gpuBuffer buffer =
           (Inr (gpuBuffer\<lparr>mapped_range := encode t (raw_elems buffer)\<rparr>), [GetMappedRange])"
  using assms
  by (simp add: write_through_def getMappedRange_def new_view_def view_set_def view_length_def
      byteLength_def array_length_def converted_def Let_def length_encode BYTES_PER_ELEMENT_pos
      bnd_def call_def ret_def throw_def)

lemma createGPUBuffer_calls:
  "\<exists>t. snd (createGPUBuffer cvt device buffer usage) =
         CreateBuffer \<lparr>size_desc = byteLength buffer, usage_desc = usage, mappedAtCreation = True\<rparr> # t
       \<and> set t \<subseteq> {GetMappedRange, Unmap, ConsoleError [Str ''Unhandled buffer format '', Str ''object'']}"
  by (cases "elem_type_of buffer")
    (simp_all add: createGPUBuffer_def createBuffer_def unmap_def Let_def run_simps snd_write_through
      split: sum.split option.split)

lemma createGPUBuffer_returns:
  assumes "fst (createGPUBuffer cvt device buffer usage) = Inr gpuBuffer"
  shows "size_buf gpuBuffer = byteLength buffer \<and> usage_buf gpuBuffer = usage \<and> \<not> mapped gpuBuffer
       \<and> length (filter (\<lambda>e. e = Unmap) (snd (createGPUBuffer cvt device buffer usage))) = 1"
  using assms
  by (cases "elem_type_of buffer")
    (auto simp add: createGPUBuffer_def createBuffer_def unmap_def Let_def run_simps snd_write_through
      split: sum.splits option.splits if_splits dest: fst_write_through)

lemma createGPUBuffer_supported:
  assumes "elem_type_of buffer \<in> {Float32, Uint32, Uint16, Uint8}"
    and "buffer_refusal device \<lparr>size_desc = byteLength buffer, usage_desc = usage,
                                  mappedAtCreation = True\<rparr> = None"
  shows "createGPUBuffer cvt device buffer usage =
     (Inr \<lparr>size_buf = byteLength buffer, usage_buf = usage, mapped = False, mapped_range = [],
            contents = encode (elem_type_of buffer) (raw_elems buffer)\<rparr>,
      [CreateBuffer \<lparr>size_desc = byteLength buffer, usage_desc = usage, mappedAtCreation = True\<rparr>,
       GetMappedRange, Unmap])"
proof -
  let ?g = "\<lparr>size_buf = byteLength buffer, usage_buf = usage, mapped = True,
             mapped_range = replicate (byteLength buffer) 0,
             contents = replicate (byteLength buffer) 0\<rparr>"
  have w: "write_through cvt (elem_type_of buffer) ?g buffer =
      (Inr (?g\<lparr>mapped_range := encode (elem_type_of buffer) (raw_elems buffer)\<rparr>), [GetMappedRange])"
    by (rule write_through_same) simp_all
  from assms(1) consider "elem_type_of buffer = Float32" | "elem_type_of buffer = Uint32"
    | "elem_type_of buffer = Uint16" | "elem_type_of buffer = Uint8"
    by auto
  then show ?thesis
  proof cases
    case 1
    with w assms(2) show ?thesis
      by (simp add: createGPUBuffer_def createBuffer_def unmap_def bnd_def call_def ret_def)
  next
    case 2
    with w assms(2) show ?thesis
      by (simp add: createGPUBuffer_def createBuffer_def unmap_def bnd_def call_def ret_def)
  next
    case 3
    with w assms(2) show ?thesis
      by (simp add: createGPUBuffer_def createBuffer_def unmap_def bnd_def call_def ret_def)
  next
    case 4
    with w assms(2) show ?thesis
      by (simp add: createGPUBuffer_def createBuffer_def unmap_def bnd_def call_def ret_def)
  qed
qed

lemma write_through_fits:
  assumes "mapped gpuBuffer" and "length (mapped_range gpuBuffer) = byteLength buffer"
    and "byteLength buffer mod 4 = 0" and "array_length buffer \<le> byteLength buffer div 4"
    and "\<not> is_bigint (elem_type_of buffer)" and "elem_type_of buffer \<noteq> Float32"
  shows "write_through cvt Float32 gpuBuffer buffer =
           (Inr (gpuBuffer\<lparr>mapped_range :=
                   encode Float32 (map (cvt (elem_type_of buffer) Float32) (raw_elems buffer))
                   @ drop (4 * array_length buffer) (mapped_range gpuBuffer)\<rparr>), [GetMappedRange])"
proof -
  have v: "new_view Float32 (mapped_range gpuBuffer) =
      ret \<lparr>view_type = Float32, view_buffer = mapped_range gpuBuffer\<rparr>"
    using assms(2,3) by (simp add: new_view_def)
  have s: "view_set cvt \<lparr>view_type = Float32, view_buffer = mapped_range gpuBuffer\<rparr> buffer =
      ret \<lparr>view_type = Float32, view_buffer =
             encode Float32 (map (cvt (elem_type_of buffer) Float32) (raw_elems buffer))
             @ drop (4 * array_length buffer) (mapped_range gpuBuffer)\<rparr>"
    using assms(2,4,5,6)
    by (simp add: view_set_def view_length_def converted_def Let_def length_encode array_length_def
        mult.commute)
  show ?thesis
    using assms(1)
    by (simp add: write_through_def getMappedRange_def v s bnd_def call_def ret_def)
qed

lemma write_through_does_not_fit:
  assumes "mapped gpuBuffer" and "length (mapped_range gpuBuffer) = byteLength buffer"
    and "byteLength buffer mod 4 \<noteq> 0 \<or> array_length buffer > byteLength buffer div 4
         \<or> is_bigint (elem_type_of buffer)"
  shows "\<exists>e. fst (write_through cvt Float32 gpuBuffer buffer) = Inl e"
  using assms
  by (auto simp add: write_through_def getMappedRange_def new_view_def view_set_def view_length_def
      Let_def run_simps)


lemma createGPUBuffer_fallback:
  assumes "elem_type_of buffer \<notin> {Float32, Uint32, Uint16, Uint8}"
    and "buffer_refusal device \<lparr>size_desc = byteLength buffer, usage_desc = usage,
                                  mappedAtCreation = True\<rparr> = None"
    and "byteLength buffer mod 4 = 0" and "array_length buffer \<le> byteLength buffer div 4"
    and "\<not> is_bigint (elem_type_of buffer)"
  shows "createGPUBuffer cvt device buffer usage =
     (Inr \<lparr>size_buf = byteLength buffer, usage_buf = usage, mapped = False, mapped_range = [],
            contents = encode Float32 (map (cvt (elem_type_of buffer) Float32) (raw_elems buffer))
                       @ replicate (byteLength buffer - 4 * array_length buffer) 0\<rparr>,
      [CreateBuffer \<lparr>size_desc = byteLength buffer, usage_desc = usage, mappedAtCreation = True\<rparr>,
       GetMappedRange, ConsoleError [Str ''Unhandled buffer format '', Str ''object''], Unmap])"
proof -
  let ?g = "\<lparr>size_buf = byteLength buffer, usage_buf = usage, mapped = True,
             mapped_range = replicate (byteLength buffer) 0,
             contents = replicate (byteLength buffer) 0\<rparr>"
  have w: "write_through cvt Float32 ?g buffer =
      (Inr (?g\<lparr>mapped_range :=
              encode Float32 (map (cvt (elem_type_of buffer) Float32) (raw_elems buffer))
              @ drop (4 * array_length buffer) (mapped_range ?g)\<rparr>), [GetMappedRange])"
    using assms by (intro write_through_fits) simp_all
  from assms(1) have "elem_type_of buffer \<noteq> Float32" "elem_type_of buffer \<noteq> Uint32"
    "elem_type_of buffer \<noteq> Uint16" "elem_type_of buffer \<noteq> Uint8"
    by simp_all
  with w assms(2) show ?thesis
    by (simp add: createGPUBuffer_def createBuffer_def unmap_def bnd_def call_def ret_def)
qed

lemma createGPUBuffer_fallback_throws:
  assumes "elem_type_of buffer \<notin> {Float32, Uint32, Uint16, Uint8}"
    and "byteLength buffer mod 4 \<noteq> 0 \<or> array_length buffer > byteLength buffer div 4
         \<or> is_bigint (elem_type_of buffer)"
  shows "(\<exists>e. fst (createGPUBuffer cvt device buffer usage) = Inl e)
       \<and> filter is_ConsoleError (snd (createGPUBuffer cvt device buffer usage)) = []
       \<and> Unmap \<notin> set (snd (createGPUBuffer cvt device buffer usage))"
proof -
  let ?g = "\<lparr>size_buf = byteLength buffer, usage_buf = usage, mapped = True,
             mapped_range = replicate (byteLength buffer) 0,
             contents = replicate (byteLength buffer) 0\<rparr>"
  obtain e where w: "fst (write_through cvt Float32 ?g buffer) = Inl e"
    using write_through_does_not_fit [of ?g buffer cvt] assms(2) by auto
  from assms(1) have "elem_type_of buffer \<noteq> Float32" "elem_type_of buffer \<noteq> Uint32"
    "elem_type_of buffer \<noteq> Uint16" "elem_type_of buffer \<noteq> Uint8"
    by simp_all
  with w show ?thesis
    by (simp add: createGPUBuffer_def createBuffer_def Let_def run_simps snd_write_through
        split: option.split)
qed

lemma sample_device_grants:
  "n mod 4 = 0 \<Longrightarrow>
   buffer_refusal sample_device \<lparr>size_desc = n, usage_desc = u, mappedAtCreation = m\<rparr> = None"
  by (simp add: sample_device_def)



text \<open>
  C10. Whenever \<open>createGPUBuffer\<close> returns a buffer, whatever the element type of the
  source, it has called \<open>unmap\<close> exactly once and the buffer is not mapped. And it does
  return, on each of its five branches, when the device grants the buffer and the source
  fits the view the branch creates (which a source of a supported type always does).
\<close>

theorem createGPUBuffer_unmaps_once:
  "(\<forall>gpuBuffer. fst (createGPUBuffer cvt device buffer usage) = Inr gpuBuffer \<longrightarrow>
      \<not> mapped gpuBuffer
      \<and> length (filter (\<lambda>e. e = Unmap) (snd (createGPUBuffer cvt device buffer usage))) = 1)
   \<and> (buffer_refusal device \<lparr>size_desc = byteLength buffer, usage_desc = usage,
                               mappedAtCreation = True\<rparr> = None
       \<and> (elem_type_of buffer \<in> {Float32, Uint32, Uint16, Uint8}
            \<or> byteLength buffer mod 4 = 0 \<and> array_length buffer \<le> byteLength buffer div 4
              \<and> \<not> is_bigint (elem_type_of buffer)) \<longrightarrow>
      (\<exists>gpuBuffer. fst (createGPUBuffer cvt device buffer usage) = Inr gpuBuffer))"
proof -
  have unmapped: "\<forall>gpuBuffer. fst (createGPUBuffer cvt device buffer usage) = Inr gpuBuffer \<longrightarrow>
      \<not> mapped gpuBuffer
      \<and> length (filter (\<lambda>e. e = Unmap) (snd (createGPUBuffer cvt device buffer usage))) = 1"
    by (simp add: createGPUBuffer_returns)
  have returns: "buffer_refusal device \<lparr>size_desc = byteLength buffer, usage_desc = usage,
                               mappedAtCreation = True\<rparr> = None
       \<and> (elem_type_of buffer \<in> {Float32, Uint32, Uint16, Uint8}
            \<or> byteLength buffer mod 4 = 0 \<and> array_length buffer \<le> byteLength buffer div 4
              \<and> \<not> is_bigint (elem_type_of buffer)) \<longrightarrow>
      (\<exists>gpuBuffer. fst (createGPUBuffer cvt device buffer usage) = Inr gpuBuffer)"
  proof
    assume a: "buffer_refusal device \<lparr>size_desc = byteLength buffer, usage_desc = usage,
                               mappedAtCreation = True\<rparr> = None
       \<and> (elem_type_of buffer \<in> {Float32, Uint32, Uint16, Uint8}
            \<or> byteLength buffer mod 4 = 0 \<and> array_length buffer \<le> byteLength buffer div 4
              \<and> \<not> is_bigint (elem_type_of buffer))"
    show "\<exists>gpuBuffer. fst (createGPUBuffer cvt device buffer usage) = Inr gpuBuffer"
    proof (cases "elem_type_of buffer \<in> {Float32, Uint32, Uint16, Uint8}")
      case True
      with a show ?thesis
        using createGPUBuffer_supported [of buffer device usage cvt] by simp
    next
      case False
      with a show ?thesis
        using createGPUBuffer_fallback [of buffer device usage cvt] by simp
    qed
  qed
  from unmapped returns show ?thesis
    by (rule conjI)
qed

theorem createGPUBuffer_unmaps_once_witness:
  "(\<exists>g. fst (createGPUBuffer (\<lambda>_ _ v. v) sample_device (Int32Array [5]) GPUBufferUsage_VERTEX) = Inr g
       \<and> \<not> mapped g)
   \<and> length (filter (\<lambda>e. e = Unmap)
        (snd (createGPUBuffer (\<lambda>_ _ v. v) sample_device (Int32Array [5]) GPUBufferUsage_VERTEX))) = 1"
proof -
  have b: "byteLength (Int32Array [5]) = 4" and n: "array_length (Int32Array [5]) = 1"
    by (simp_all add: byteLength_def array_length_def)
  have g: "buffer_refusal sample_device
      \<lparr>size_desc = 4, usage_desc = GPUBufferUsage_VERTEX, mappedAtCreation = True\<rparr> = None"
    by (simp add: sample_device_grants)
  from createGPUBuffer_unmaps_once [of "\<lambda>_ _ v. v" sample_device "Int32Array [5]" GPUBufferUsage_VERTEX]
    b n g
  show ?thesis
    by auto
qed

text \<open>
  C6. The fallback writes through the float32 view and logs only for a source that fits
  that view. For \<open>new Int16Array([1, 2])\<close> the buffer has 4 bytes, its float32 view has one
  element, and \<open>set\<close> throws a \<open>RangeError\<close> for the two elements of the source: the
  call ends there, with nothing logged and the buffer still mapped.
\<close>

theorem createGPUBuffer_Int16Array_throws:
  "createGPUBuffer cvt sample_device (Int16Array [1, 2]) GPUBufferUsage_VERTEX =
     (Inl RangeError,
      [CreateBuffer \<lparr>size_desc = 4, usage_desc = GPUBufferUsage_VERTEX, mappedAtCreation = True\<rparr>,
       GetMappedRange])"
proof -
  have b: "byteLength (Int16Array [1, 2]) = 4" and n: "array_length (Int16Array [1, 2]) = 2"
    by (simp_all add: byteLength_def array_length_def)
  have g: "buffer_refusal sample_device
      \<lparr>size_desc = 4, usage_desc = GPUBufferUsage_VERTEX, mappedAtCreation = True\<rparr> = None"
    by (simp add: sample_device_grants)
  have v: "new_view Float32 (replicate 4 0) = ret \<lparr>view_type = Float32, view_buffer = replicate 4 0\<rparr>"
    by (simp add: new_view_def)
  have s: "view_set cvt \<lparr>view_type = Float32, view_buffer = replicate 4 0\<rparr> (Int16Array [1, 2]) =
      throw RangeError"
    by (simp add: view_set_def view_length_def n)
  show ?thesis
    by (simp add: createGPUBuffer_def createBuffer_def write_through_def getMappedRange_def
        b g v s bnd_def call_def ret_def throw_def)
qed

subsection \<open>\<open>fetchShaderFile\<close>\<close>

lemma find_src_None: "find_src shadersMap i = None \<longleftrightarrow> i \<notin> entry_id ` set shadersMap"
  by (induction shadersMap) auto

text \<open>The function catches what it throws: it always returns.\<close>

lemma fetchShaderFile_returns: "\<exists>content. fst (fetchShaderFile env shadersMap i) = Inr content"
  by (simp add: fetchShaderFile_def Let_def run_simps split: option.split sum.split)

lemma fetchShaderFile_fetched:
  assumes "find_src shadersMap i = Some src" and "src \<noteq> []"
    and "fetch env src = Inr response" and "ok response" and "text_body response = Inr content"
  shows "fetchShaderFile env shadersMap i = (Inr (Some content), [Fetch src])"
  using assms by (simp add: fetchShaderFile_def Let_def run_simps prod_eq_iff)

text \<open>The only request the function can make is for the path the table gives the id.\<close>

lemma fetchShaderFile_Fetch:
  assumes "Fetch url \<in> set (snd (fetchShaderFile env shadersMap i))"
  shows "find_src shadersMap i = Some url \<and> url \<noteq> []"
  using assms
  by (auto simp add: fetchShaderFile_def Let_def run_simps split: option.splits sum.splits if_splits)

lemma fetchShaderFile_quiet:
  "draws (snd (fetchShaderFile env shadersMap i)) = []"
  "submits (snd (fetchShaderFile env shadersMap i)) = []"
  "pipeline_descs (snd (fetchShaderFile env shadersMap i)) = []"
  by (simp_all add: fetchShaderFile_def Let_def run_simps split: option.split sum.split)

text \<open>The entry the loop stops at is the first one of the table with the id, and every
  id of the table has such an entry.\<close>

lemma find_src_first:
  assumes "shadersMap = pre @ e # post" and "i \<notin> entry_id ` set pre" and "entry_id e = i"
  shows "find_src shadersMap i = Some (entry_src e)"
  using assms by (induction pre arbitrary: shadersMap) auto

lemma registered_first_entry:
  assumes "i \<in> entry_id ` set shadersMap"
  shows "\<exists>pre e post. shadersMap = pre @ e # post \<and> i \<notin> entry_id ` set pre \<and> entry_id e = i"
proof -
  from assms have "\<exists>x \<in> set shadersMap. entry_id x = i"
    by auto
  then obtain pre e post where "shadersMap = pre @ e # post" and "entry_id e = i"
    and "\<forall>y \<in> set pre. entry_id y \<noteq> i"
    by (auto simp add: split_list_first_prop_iff)
  then show ?thesis
    by (intro exI [of _ pre] exI [of _ e] exI [of _ post]) auto
qed

lemma fetchShaderFile_requests:
  assumes "find_src shadersMap i = Some src" and "src \<noteq> []"
  shows "Fetch src \<in> set (snd (fetchShaderFile env shadersMap i))"
  using assms by (simp add: fetchShaderFile_def Let_def run_simps split: sum.split)

text \<open>
  C4. Let \<open>e\<close> be the entry of the table for the id: the first entry that has it. The
  requests \<open>fetchShaderFile\<close> makes are decided by the table alone: it requests the path
  of \<open>e\<close>, once that path is not empty, and no other path. When the browser answers that
  request with an ok response whose body reads as \<open>content\<close>, the function returns
  \<open>content\<close>, as it is, and that request is all it has done.
\<close>

theorem fetchShaderFile_known_id:
  assumes "shadersMap = pre @ e # post" and "i \<notin> entry_id ` set pre" and "entry_id e = i"
  shows "(\<forall>url. Fetch url \<in> set (snd (fetchShaderFile env shadersMap i))
            \<longleftrightarrow> url = entry_src e \<and> entry_src e \<noteq> [])
       \<and> (entry_src e \<noteq> [] \<and> fetch env (entry_src e) = Inr response \<and> ok response
            \<and> text_body response = Inr content \<longrightarrow>
          fetchShaderFile env shadersMap i = (Inr (Some content), [Fetch (entry_src e)]))"
proof -
  from assms have f: "find_src shadersMap i = Some (entry_src e)"
    by (rule find_src_first)
  have "Fetch url \<in> set (snd (fetchShaderFile env shadersMap i))
      \<longleftrightarrow> url = entry_src e \<and> entry_src e \<noteq> []" for url
  proof
    assume "Fetch url \<in> set (snd (fetchShaderFile env shadersMap i))"
    then have "find_src shadersMap i = Some url \<and> url \<noteq> []"
      by (rule fetchShaderFile_Fetch)
    with f show "url = entry_src e \<and> entry_src e \<noteq> []"
      by simp
  next
    assume "url = entry_src e \<and> entry_src e \<noteq> []"
    with f show "Fetch url \<in> set (snd (fetchShaderFile env shadersMap i))"
      by (simp add: fetchShaderFile_requests)
  qed
  moreover have "fetchShaderFile env shadersMap i = (Inr (Some content), [Fetch (entry_src e)])"
    if "entry_src e \<noteq> [] \<and> fetch env (entry_src e) = Inr response \<and> ok response
            \<and> text_body response = Inr content"
    using f that by (simp add: fetchShaderFile_fetched)
  ultimately show ?thesis
    by blast
qed

lemma sample_fetchShaderFile:
  "fetchShaderFile sample_env sample_shadersMap ''demo'' =
     (Inr (Some ''// demo.wgsl''), [Fetch ''shaders/demo.wgsl''])"
  by (rule fetchShaderFile_fetched [where response = "\<lparr>ok = True, text_body = Inr ''// demo.wgsl''\<rparr>"])
    (simp_all add: sample_env_def sample_shadersMap_def)

text \<open>A table of two shaders, the one asked for in second place: the path requested and
  the text returned are those of its own entry.\<close>

theorem fetchShaderFile_known_id_witness:
  "fetchShaderFile sample_env
     [\<lparr>entry_id = ''other'', entry_src = ''shaders/other.wgsl''\<rparr>,
      \<lparr>entry_id = ''demo'', entry_src = ''shaders/demo.wgsl''\<rparr>] ''demo'' =
     (Inr (Some ''// demo.wgsl''), [Fetch ''shaders/demo.wgsl''])"
proof -
  let ?other = "\<lparr>entry_id = ''other'', entry_src = ''shaders/other.wgsl''\<rparr>"
  let ?demo = "\<lparr>entry_id = ''demo'', entry_src = ''shaders/demo.wgsl''\<rparr>"
  have 1: "[?other, ?demo] = [?other] @ ?demo # []"
    by simp
  have 2: "''demo'' \<notin> entry_id ` set [?other]"
    by simp
  have 3: "entry_id ?demo = ''demo''"
    by simp
  have 4: "fetch sample_env ''shaders/demo.wgsl'' = Inr \<lparr>ok = True, text_body = Inr ''// demo.wgsl''\<rparr>"
    by (simp add: sample_env_def)
  from fetchShaderFile_known_id [OF 1 2 3, of sample_env "\<lparr>ok = True, text_body = Inr ''// demo.wgsl''\<rparr>"
      "''// demo.wgsl''"] 4
  show ?thesis
    by simp
qed

subsection \<open>\<open>init\<close>\<close>

lemma byteLength_vertices: "byteLength vertices = 96"
  by (simp add: vertices_def byteLength_def array_length_def)

lemma createGPUBuffer_quiet:
  "draws (snd (createGPUBuffer cvt device buffer usage)) = []"
  "submits (snd (createGPUBuffer cvt device buffer usage)) = []"
  "pipeline_descs (snd (createGPUBuffer cvt device buffer usage)) = []"
proof -
  obtain t where t: "snd (createGPUBuffer cvt device buffer usage) =
      CreateBuffer \<lparr>size_desc = byteLength buffer, usage_desc = usage, mappedAtCreation = True\<rparr> # t"
    and sub: "set t \<subseteq> {GetMappedRange, Unmap, ConsoleError [Str ''Unhandled buffer format '', Str ''object'']}"
    using createGPUBuffer_calls by blast
  from sub have "draws t = [] \<and> submits t = [] \<and> pipeline_descs t = []"
    by (induction t) auto
  with t show "draws (snd (createGPUBuffer cvt device buffer usage)) = []"
    "submits (snd (createGPUBuffer cvt device buffer usage)) = []"
    "pipeline_descs (snd (createGPUBuffer cvt device buffer usage)) = []"
    by simp_all
qed

lemma createGPUBuffer_vertices:
  "fst (createGPUBuffer cvt device vertices usage) =
     (case buffer_refusal device \<lparr>size_desc = 96, usage_desc = usage, mappedAtCreation = True\<rparr> of
        Some e \<Rightarrow> Inl e
      | None \<Rightarrow> Inr \<lparr>size_buf = 96, usage_buf = usage, mapped = False, mapped_range = [],
                      contents = encode Float32 (raw_elems vertices)\<rparr>)"
proof (cases "buffer_refusal device \<lparr>size_desc = 96, usage_desc = usage, mappedAtCreation = True\<rparr>")
  case None
  have "elem_type_of vertices = Float32"
    by (simp add: vertices_def)
  with None show ?thesis
    using createGPUBuffer_supported [of vertices device usage cvt]
    by (simp add: byteLength_vertices)
next
  case (Some e)
  then show ?thesis
    by (simp add: createGPUBuffer_def createBuffer_def Let_def run_simps byteLength_vertices)
qed

lemmas init_simps =
  init_def createShaderModule_def createPipelineLayout_def createRenderPipeline_def Let_def
  run_simps draws_append submits_append pipeline_descs_append
  fetchShaderFile_quiet createGPUBuffer_quiet createGPUBuffer_vertices

text \<open>
  C1. Without \<open>navigator.gpu\<close>, \<open>init\<close> throws before it has called anything. When
  \<open>requestAdapter\<close> resolves to \<open>null\<close>, it throws after that one call: no device is
  requested.
\<close>

theorem init_fails_fast:
  "(gpu env = None \<longrightarrow>
      init env shadersMap = (Inl (Error ''WebGPU not supported.''), []))
   \<and> (\<forall>navigator_gpu. gpu env = Some navigator_gpu \<and> requestAdapter navigator_gpu = Inr None \<longrightarrow>
      init env shadersMap =
        (Inl (Error (''Couldn'' @ [CHR 0x27] @ ''t request WebGPU adapter.'')), [RequestAdapter]))"
  by (simp add: init_def run_simps prod_eq_iff)

theorem init_fails_fast_witness:
  "init (sample_env\<lparr>gpu := None\<rparr>) sample_shadersMap = (Inl (Error ''WebGPU not supported.''), [])
   \<and> init (sample_env\<lparr>gpu := Some (sample_gpu\<lparr>requestAdapter := Inr None\<rparr>)\<rparr>) sample_shadersMap =
        (Inl (Error (''Couldn'' @ [CHR 0x27] @ ''t request WebGPU adapter.'')), [RequestAdapter])"
  using init_fails_fast [of "sample_env\<lparr>gpu := None\<rparr>" sample_shadersMap]
    init_fails_fast [of "sample_env\<lparr>gpu := Some (sample_gpu\<lparr>requestAdapter := Inr None\<rparr>)\<rparr>"
      sample_shadersMap]
  by simp

text \<open>
  C2. When the page has no element \<open>#webgpu-canvas\<close> and \<open>init\<close> gets as far as looking
  for it, \<open>init\<close> logs the error and goes on: its next step, \<open>canvas.getContext\<close>, is a
  property access on \<open>null\<close>, and the run ends there with the runtime's \<open>TypeError\<close>, the
  message being the last thing it did.
\<close>

theorem init_missing_canvas:
  assumes "gpu env = Some navigator_gpu"
    and "requestAdapter navigator_gpu = Inr (Some adapter)"
    and "requestDevice adapter = Inr device"
    and "fst (fetchShaderFile env shadersMap ''demo'') = Inr shader_demo"
    and "shader_module_for device shader_demo = Inr shaderModule_demo"
    and "querySelector env ''#webgpu-canvas'' = None"
  shows "fst (init env shadersMap) = Inl TypeError
       \<and> snd (init env shadersMap) =
           [RequestAdapter, RequestDevice] @ snd (fetchShaderFile env shadersMap ''demo'')
           @ [CreateShaderModule shader_demo, ConsoleError [Str ''No canvas found to render to!'']]"
  using assms by (simp add: init_def createShaderModule_def Let_def run_simps)

text \<open>What the browser must provide for \<open>init\<close> to run to its end.\<close>

lemma init_completes:
  assumes "gpu env = Some navigator_gpu"
    and "requestAdapter navigator_gpu = Inr (Some adapter)"
    and "requestDevice adapter = Inr device"
    and "fst (fetchShaderFile env shadersMap ''demo'') = Inr shader_demo"
    and "shader_module_for device shader_demo = Inr shaderModule_demo"
    and "querySelector env ''#webgpu-canvas'' = Some (Canvas canvas)"
    and "getContext_webgpu canvas = Some context"
    and "buffer_refusal device \<lparr>size_desc = 96, usage_desc = GPUBufferUsage_VERTEX,
                                  mappedAtCreation = True\<rparr> = None"
  shows "fst (init env shadersMap) = Inr ()"
  using assms by (simp add: init_simps)

lemma sample_init_completes: "fst (init sample_env sample_shadersMap) = Inr ()"
proof (rule init_completes)
  show "gpu sample_env = Some sample_gpu"
    by (simp add: sample_env_def)
  show "requestAdapter sample_gpu = Inr (Some \<lparr>requestDevice = Inr sample_device\<rparr>)"
    by (simp add: sample_gpu_def)
  show "requestDevice \<lparr>requestDevice = Inr sample_device\<rparr> = Inr sample_device"
    by simp
  show "fst (fetchShaderFile sample_env sample_shadersMap ''demo'') = Inr (Some ''// demo.wgsl'')"
    by (simp add: sample_fetchShaderFile)
  show "shader_module_for sample_device (Some ''// demo.wgsl'') = Inr 1"
    by (simp add: sample_device_def)
  show "querySelector sample_env ''#webgpu-canvas'' = Some (Canvas sample_canvas)"
    by (simp add: sample_env_def)
  show "getContext_webgpu sample_canvas = Some CanvasContext"
    by (simp add: sample_canvas_def)
  show "buffer_refusal sample_device \<lparr>size_desc = 96, usage_desc = GPUBufferUsage_VERTEX,
                                  mappedAtCreation = True\<rparr> = None"
    by (simp add: sample_device_grants)
qed

text \<open>A run of \<open>init\<close> that reaches its end has created one pipeline, drawn once and
  submitted once; a run that ends in an exception has done none of the three.\<close>

lemma init_draws:
  "draws (snd (init env shadersMap)) = (if fst (init env shadersMap) = Inr () then [3] else [])"
  by (simp add: init_simps split: option.split sum.split element.split)

lemma init_submits:
  "submits (snd (init env shadersMap)) =
     (if fst (init env shadersMap) = Inr () then [[CommandBuffer]] else [])"
  by (simp add: init_simps split: option.split sum.split element.split)

lemma init_pipeline:
  "map (\<lambda>d. (buffers (vertex d), topology (primitive d), layout d))
       (pipeline_descs (snd (init env shadersMap))) =
     (if fst (init env shadersMap) = Inr ()
      then [(vertexBufferLayout, ''triangle-list'', Layout (PipelineLayout \<lparr>bindGroupLayouts = []\<rparr>))]
      else [])"
  by (simp add: init_simps split: option.split sum.split element.split)

theorem init_missing_canvas_witness:
  "fst (init (sample_env\<lparr>querySelector := \<lambda>_. None\<rparr>) sample_shadersMap) = Inl TypeError
   \<and> snd (init (sample_env\<lparr>querySelector := \<lambda>_. None\<rparr>) sample_shadersMap) =
       [RequestAdapter, RequestDevice, Fetch ''shaders/demo.wgsl'',
        CreateShaderModule (Some ''// demo.wgsl''),
        ConsoleError [Str ''No canvas found to render to!'']]"
proof -
  let ?env = "sample_env\<lparr>querySelector := \<lambda>_. None\<rparr>"
  have f: "fetchShaderFile ?env sample_shadersMap ''demo'' =
      (Inr (Some ''// demo.wgsl''), [Fetch ''shaders/demo.wgsl''])"
    by (rule fetchShaderFile_fetched [where response = "\<lparr>ok = True, text_body = Inr ''// demo.wgsl''\<rparr>"])
      (simp_all add: sample_env_def sample_shadersMap_def)
  have "fst (init ?env sample_shadersMap) = Inl TypeError
       \<and> snd (init ?env sample_shadersMap) =
           [RequestAdapter, RequestDevice] @ snd (fetchShaderFile ?env sample_shadersMap ''demo'')
           @ [CreateShaderModule (Some ''// demo.wgsl''), ConsoleError [Str ''No canvas found to render to!'']]"
  proof (rule init_missing_canvas)
    show "gpu ?env = Some sample_gpu"
      by (simp add: sample_env_def)
    show "requestAdapter sample_gpu = Inr (Some \<lparr>requestDevice = Inr sample_device\<rparr>)"
      by (simp add: sample_gpu_def)
    show "requestDevice \<lparr>requestDevice = Inr sample_device\<rparr> = Inr sample_device"
      by simp
    show "fst (fetchShaderFile ?env sample_shadersMap ''demo'') = Inr (Some ''// demo.wgsl'')"
      by (simp add: f)
    show "shader_module_for sample_device (Some ''// demo.wgsl'') = Inr 1"
      by (simp add: sample_device_def)
    show "querySelector ?env ''#webgpu-canvas'' = None"
      by simp
  qed
  then show ?thesis
    by (simp add: f)
qed

text \<open>
  C3. For an id that no entry of the table has, \<open>fetchShaderFile\<close> logs the error and
  returns \<open>undefined\<close>, and that is all it does: it requests nothing. When the id is
  \<open>demo\<close>, \<open>init\<close>, once it has its device, calls \<open>createShaderModule\<close> with that
  \<open>undefined\<close> as the code.
\<close>

theorem fetchShaderFile_unknown_id:
  "(i \<notin> entry_id ` set shadersMap \<longrightarrow>
      fetchShaderFile env shadersMap i =
        (Inr None, [ConsoleError [Str (''Failed to find shader with '' @ quoted i @ ''!'')]]))
   \<and> (''demo'' \<notin> entry_id ` set shadersMap \<and> gpu env = Some navigator_gpu
        \<and> requestAdapter navigator_gpu = Inr (Some adapter) \<and> requestDevice adapter = Inr device \<longrightarrow>
      (\<exists>t. snd (init env shadersMap) =
         [RequestAdapter, RequestDevice,
          ConsoleError [Str (''Failed to find shader with '' @ quoted ''demo'' @ ''!'')],
          CreateShaderModule None] @ t))"
proof (intro conjI impI)
  assume "i \<notin> entry_id ` set shadersMap"
  then have "find_src shadersMap i = None"
    by (simp add: find_src_None)
  then show "fetchShaderFile env shadersMap i =
      (Inr None, [ConsoleError [Str (''Failed to find shader with '' @ quoted i @ ''!'')]])"
    by (simp add: fetchShaderFile_def Let_def run_simps prod_eq_iff)
next
  assume a: "''demo'' \<notin> entry_id ` set shadersMap \<and> gpu env = Some navigator_gpu
        \<and> requestAdapter navigator_gpu = Inr (Some adapter) \<and> requestDevice adapter = Inr device"
  then have "find_src shadersMap ''demo'' = None"
    by (simp add: find_src_None)
  then have "fetchShaderFile env shadersMap ''demo'' =
      (Inr None, [ConsoleError [Str (''Failed to find shader with '' @ quoted ''demo'' @ ''!'')]])"
    by (simp add: fetchShaderFile_def Let_def run_simps prod_eq_iff)
  with a show "\<exists>t. snd (init env shadersMap) =
         [RequestAdapter, RequestDevice,
          ConsoleError [Str (''Failed to find shader with '' @ quoted ''demo'' @ ''!'')],
          CreateShaderModule None] @ t"
    by (simp add: init_def createShaderModule_def run_simps split: sum.split)
qed

theorem fetchShaderFile_unknown_id_witness:
  "''demo'' \<notin> entry_id ` set ([] :: shader_entry list)
   \<and> fetchShaderFile sample_env [] ''demo'' =
        (Inr None, [ConsoleError [Str (''Failed to find shader with '' @ quoted ''demo'' @ ''!'')]])
   \<and> (\<exists>t. snd (init sample_env []) =
         [RequestAdapter, RequestDevice,
          ConsoleError [Str (''Failed to find shader with '' @ quoted ''demo'' @ ''!'')],
          CreateShaderModule None] @ t)"
proof -
  have "gpu sample_env = Some sample_gpu"
    "requestAdapter sample_gpu = Inr (Some \<lparr>requestDevice = Inr sample_device\<rparr>)"
    "requestDevice \<lparr>requestDevice = Inr sample_device\<rparr> = Inr sample_device"
    by (simp_all add: sample_env_def sample_gpu_def)
  with fetchShaderFile_unknown_id [of "''demo''" "[]" sample_env sample_gpu
      "\<lparr>requestDevice = Inr sample_device\<rparr>" sample_device]
  show ?thesis
    by simp
qed

text \<open>
  C7. Every render pipeline descriptor that \<open>init\<close> hands to \<open>createRenderPipeline\<close> has
  one vertex buffer layout, of stride 32, with two \<open>float32x4\<close> attributes, at shader
  locations 0 and 1 and offsets 0 and 16, and the topology \<open>triangle-list\<close>; a run of
  \<open>init\<close> that reaches its end has built one such descriptor.
\<close>

theorem init_pipeline_vertex_layout:
  "(\<forall>d \<in> set (pipeline_descs (snd (init env shadersMap))).
      buffers (vertex d) =
        [\<lparr>attributes = [\<lparr>shaderLocation = 0, offset = 0, format = ''float32x4''\<rparr>,
                        \<lparr>shaderLocation = 1, offset = 16, format = ''float32x4''\<rparr>],
          arrayStride = 32, stepMode = ''vertex''\<rparr>]
      \<and> topology (primitive d) = ''triangle-list'')
   \<and> (fst (init env shadersMap) = Inr () \<longrightarrow> length (pipeline_descs (snd (init env shadersMap))) = 1)"
proof -
  let ?ds = "pipeline_descs (snd (init env shadersMap))"
  have m: "map (\<lambda>d. (buffers (vertex d), topology (primitive d), layout d)) ?ds =
     (if fst (init env shadersMap) = Inr ()
      then [(vertexBufferLayout, ''triangle-list'', Layout (PipelineLayout \<lparr>bindGroupLayouts = []\<rparr>))]
      else [])"
    by (rule init_pipeline)
  have "buffers (vertex d) = vertexBufferLayout \<and> topology (primitive d) = ''triangle-list''"
    if "d \<in> set ?ds" for d
  proof -
    from that have "(buffers (vertex d), topology (primitive d), layout d)
        \<in> set (map (\<lambda>d. (buffers (vertex d), topology (primitive d), layout d)) ?ds)"
      by simp
    then show ?thesis
      by (simp only: m) (simp split: if_splits)
  qed
  moreover have "length ?ds = 1" if "fst (init env shadersMap) = Inr ()"
  proof -
    have "length ?ds = length (map (\<lambda>d. (buffers (vertex d), topology (primitive d), layout d)) ?ds)"
      by simp
    also have "\<dots> = 1"
      using that by (simp only: m) simp
    finally show ?thesis .
  qed
  ultimately show ?thesis
    by (simp add: vertexBufferLayout_def)
qed

theorem init_pipeline_vertex_layout_witness:
  "map (\<lambda>d. (buffers (vertex d), topology (primitive d)))
       (pipeline_descs (snd (init sample_env sample_shadersMap))) =
     [([\<lparr>attributes = [\<lparr>shaderLocation = 0, offset = 0, format = ''float32x4''\<rparr>,
                       \<lparr>shaderLocation = 1, offset = 16, format = ''float32x4''\<rparr>],
         arrayStride = 32, stepMode = ''vertex''\<rparr>],
       ''triangle-list'')]"
proof -
  let ?ds = "pipeline_descs (snd (init sample_env sample_shadersMap))"
  from init_pipeline_vertex_layout [of sample_env sample_shadersMap] sample_init_completes
  have every: "\<forall>d \<in> set ?ds.
      buffers (vertex d) =
        [\<lparr>attributes = [\<lparr>shaderLocation = 0, offset = 0, format = ''float32x4''\<rparr>,
                        \<lparr>shaderLocation = 1, offset = 16, format = ''float32x4''\<rparr>],
          arrayStride = 32, stepMode = ''vertex''\<rparr>]
      \<and> topology (primitive d) = ''triangle-list''"
    and one: "length ?ds = 1"
    by simp_all
  from one obtain d where "?ds = [d]"
    by (cases ?ds) simp_all
  with every show ?thesis
    by simp
qed

text \<open>
  C9. A run of \<open>init\<close> that reaches its end has called \<open>draw\<close> once, for 3 vertices, and
  \<open>queue.submit\<close> once, with one command buffer; a run that ends in an exception has
  called neither.
\<close>

theorem init_one_draw_one_submit:
  "draws (snd (init env shadersMap)) = (if fst (init env shadersMap) = Inr () then [3] else [])
   \<and> submits (snd (init env shadersMap)) =
       (if fst (init env shadersMap) = Inr () then [[CommandBuffer]] else [])"
  by (simp add: init_draws init_submits)

theorem init_one_draw_one_submit_witness:
  "fst (init sample_env sample_shadersMap) = Inr ()
   \<and> draws (snd (init sample_env sample_shadersMap)) = [3]
   \<and> submits (snd (init sample_env sample_shadersMap)) = [[CommandBuffer]]"
  using init_one_draw_one_submit [of sample_env sample_shadersMap] sample_init_completes
  by simp


subsection \<open>The layout of the pipeline\<close>

lemma fetchShaderFile_v0_quiet:
  "pipeline_descs (snd (fetchShaderFile_v0 env i)) = []"
  by (simp add: fetchShaderFile_v0_def Let_def run_simps split: option.split sum.split)

lemma init_v0_pipeline:
  "map layout (pipeline_descs (snd (init_v0 env))) =
     (if fst (init_v0 env) = Inr () then [auto] else [])"
  by (simp add: init_v0_def createShaderModule_def createRenderPipeline_def createBuffer_def
      writeBuffer_def Let_def run_simps pipeline_descs_append fetchShaderFile_v0_quiet
      split: option.split sum.split element.split)

lemma sample_init_v0_completes: "fst (init_v0 sample_env) = Inr ()"
proof -
  have f: "fetchShaderFile_v0 sample_env ''shader-demo'' =
      (Inr (Some ''// demo.wgsl''), [Fetch ''shaders/demo.wgsl''])"
    by (simp add: fetchShaderFile_v0_def sample_env_def Let_def run_simps prod_eq_iff)
  have e: "gpu sample_env = Some sample_gpu"
    "querySelector sample_env ''#webgpu-canvas'' = Some (Canvas sample_canvas)"
    by (simp_all add: sample_env_def)
  have d: "shader_module_for sample_device (Some ''// demo.wgsl'') = Inr 1"
    "buffer_refusal sample_device
       \<lparr>size_desc = byteLength vertices,
          usage_desc = GPUBufferUsage_VERTEX OR GPUBufferUsage_COPY_DST,
          mappedAtCreation = False\<rparr> = None"
    by (simp_all add: sample_device_def)
  show ?thesis
    by (simp add: init_v0_def createShaderModule_def createRenderPipeline_def createBuffer_def
        writeBuffer_def Let_def run_simps f e d sample_gpu_def sample_canvas_def)
qed

text \<open>
  C8, as the code has it. The pipeline that \<open>init\<close> of \<open>main.ts\<close> creates is given a
  pipeline layout of its own, the one \<open>createPipelineLayout\<close> returns for a descriptor
  with no bind-group layouts. It is the \<open>init\<close> of the repository's other file that
  passes \<open>"auto"\<close>.
\<close>

theorem init_pipeline_layout:
  "(\<forall>d \<in> set (pipeline_descs (snd (init env shadersMap))).
      layout d = Layout (PipelineLayout \<lparr>bindGroupLayouts = []\<rparr>))
   \<and> (\<forall>d \<in> set (pipeline_descs (snd (init_v0 env))). layout d = auto)"
proof -
  let ?f = "\<lambda>d. (buffers (vertex d), topology (primitive d), layout d)"
  have "layout d = Layout (PipelineLayout \<lparr>bindGroupLayouts = []\<rparr>)"
    if "d \<in> set (pipeline_descs (snd (init env shadersMap)))" for d
  proof -
    from that have "?f d \<in> set (map ?f (pipeline_descs (snd (init env shadersMap))))"
      by simp
    then show ?thesis
      by (simp only: init_pipeline) (simp split: if_splits)
  qed
  moreover have "layout d = auto" if "d \<in> set (pipeline_descs (snd (init_v0 env)))" for d
  proof -
    from that have "layout d \<in> set (map layout (pipeline_descs (snd (init_v0 env))))"
      by simp
    then show ?thesis
      by (simp only: init_v0_pipeline) (simp split: if_splits)
  qed
  ultimately show ?thesis
    by blast
qed

theorem init_pipeline_layout_witness:
  "map layout (pipeline_descs (snd (init sample_env sample_shadersMap))) =
     [Layout (PipelineLayout \<lparr>bindGroupLayouts = []\<rparr>)]
   \<and> map layout (pipeline_descs (snd (init_v0 sample_env))) = [auto]"
proof -
  let ?ds = "pipeline_descs (snd (init sample_env sample_shadersMap))"
  let ?es = "pipeline_descs (snd (init_v0 sample_env))"
  have "length (map (\<lambda>d. (buffers (vertex d), topology (primitive d), layout d)) ?ds) = 1"
    by (simp only: init_pipeline sample_init_completes) simp
  then have "length ?ds = 1"
    by simp
  then obtain d where d: "?ds = [d]"
    by (cases ?ds) simp_all
  have "length (map layout ?es) = 1"
    by (simp only: init_v0_pipeline sample_init_v0_completes) simp
  then have "length ?es = 1"
    by simp
  then obtain d0 where d0: "?es = [d0]"
    by (cases ?es) simp_all
  from init_pipeline_layout [of sample_env sample_shadersMap] d d0 show ?thesis
    by simp
qed

text \<open>C8, as the specification words it, fails on \<open>main.ts\<close>: the one pipeline of a
  run of \<open>init\<close> in the sample browser has an explicit layout, not \<open>"auto"\<close>.\<close>

theorem init_pipeline_layout_not_auto:
  "map layout (pipeline_descs (snd (init sample_env sample_shadersMap))) =
     [Layout (PipelineLayout \<lparr>bindGroupLayouts = []\<rparr>)]
   \<and> Layout (PipelineLayout \<lparr>bindGroupLayouts = []\<rparr>) \<noteq> auto"
proof -
  have "map (\<lambda>d. (buffers (vertex d), topology (primitive d), layout d))
          (pipeline_descs (snd (init sample_env sample_shadersMap))) =
        [(vertexBufferLayout, ''triangle-list'', Layout (PipelineLayout \<lparr>bindGroupLayouts = []\<rparr>))]"
    by (simp only: init_pipeline sample_init_completes) simp
  then have "map (\<lambda>x. snd (snd x))
      (map (\<lambda>d. (buffers (vertex d), topology (primitive d), layout d))
          (pipeline_descs (snd (init sample_env sample_shadersMap)))) =
      [Layout (PipelineLayout \<lparr>bindGroupLayouts = []\<rparr>)]"
    by (simp only:) simp
  then have "map layout (pipeline_descs (snd (init sample_env sample_shadersMap))) =
      [Layout (PipelineLayout \<lparr>bindGroupLayouts = []\<rparr>)]"
    by (simp add: comp_def)
  then show ?thesis
    by simp
qed

end
